theory Spec2Isabelle
  imports Main
begin

section \<open>Data\<close>

text \<open>
  The application is one Python script, \<^verbatim>\<open>app.py\<close>. Everything it learns about the
  outside world comes through a headless browser. A call of a browser method either
  returns or raises; the message of a raised exception (\<^verbatim>\<open>str(e)\<close>) is all the
  script ever looks at, so an exception is its message and a fallible call has a
  result of type \<open>exn + 'a\<close>, \<open>Inl\<close> being the raise.
  A character stands for a code point below 256.
\<close>

type_synonym exn = string

text \<open>An article is the dict \<^verbatim>\<open>{title: ..., url: ...}\<close> built by the in-page script.\<close>

record article =
  title :: string
  url :: string

text \<open>What the in-page script reads off a matched anchor element.\<close>

record node =
  innerText :: string
  href :: string

text \<open>
  One browser session, as the script meets it. Each field is the outcome of the calls of
  that name during the session:
  \<^item> \<open>launch\<close>: \<^verbatim>\<open>sync_playwright()\<close>, \<^verbatim>\<open>create_context(p, url)\<close> and
    \<^verbatim>\<open>context.new_page()\<close>;
  \<^item> \<open>goto\<close>: \<^verbatim>\<open>page.goto(url, timeout=60000, wait_until="domcontentloaded")\<close>;
  \<^item> \<open>matches\<close>: the anchors a CSS selector matches in the page, in DOM order, or the
    exception the query raises;
  \<^item> \<open>evaluate\<close>: \<^verbatim>\<open>page.evaluate(...)\<close>, the removal of script, iframe and noscript
    elements;
  \<^item> \<open>content\<close>: \<^verbatim>\<open>page.content()\<close>;
  \<^item> \<open>close\<close>: \<^verbatim>\<open>browser.close()\<close>.
  \<^verbatim>\<open>prepare_page_for_site\<close> swallows every exception of its waits, so it has no
  outcome of its own.
\<close>

record browser =
  launch :: "exn + unit"
  goto :: "exn + unit"
  matches :: "string \<Rightarrow> exn + node list"
  evaluate :: "exn + unit"
  content :: "exn + string"
  close :: "exn + unit"

text \<open>Sequencing of fallible calls inside a \<^verbatim>\<open>try\<close> block: the first raise ends the block.\<close>

definition and_then :: "exn + 'a \<Rightarrow> ('a \<Rightarrow> exn + 'b) \<Rightarrow> exn + 'b" where
  "and_then r f = (case r of Inl e \<Rightarrow> Inl e | Inr v \<Rightarrow> f v)"

section \<open>Per-site configuration\<close>

definition SITE_SELECTORS :: "(string \<times> string list) list" where
  "SITE_SELECTORS =
    [(''apnews.com'', [''a[href^='https://apnews.com/article/']'']),
     (''news.sky.com'', [''a.sdc-site-tile__headline-link'']),
     (''www.npr.org'', [''h2.title a'']),
     (''www.upi.com'', [''a[href*='/Odd_News/']'']),
     (''nypost.com'', [''a[href*='/weird-but-true/']'']),
     (''www.huffpost.com'', [''a[href*='/entry/']'', ''a[href*='/weird-news/']'']),
     (''www.scmp.com'', [''a[href*='/offbeat/']''])]"

definition GENERIC_SELECTORS :: "string list" where
  "GENERIC_SELECTORS =
    [''a[href*='/article']'',
     ''a[href*='/story/']'',
     ''a[href*='/weird']'',
     ''a[href*='/Odd_News']'',
     ''a[href*='/offbeat']'',
     ''h3 a'',
     ''article a'']"

text \<open>\<^verbatim>\<open>SITE_SELECTORS.get(domain, [])\<close>.\<close>

definition site_selectors :: "string \<Rightarrow> string list" where
  "site_selectors domain =
    (case map_of SITE_SELECTORS domain of None \<Rightarrow> [] | Some sels \<Rightarrow> sels)"

section \<open>Link extraction\<close>

text \<open>
  The in-page script of \<^verbatim>\<open>fetch_links\<close>:
  \<^verbatim>\<open>nodes => nodes.map(a => ({title: a.innerText.trim(), url: a.href})).filter(x => x.title && x.url)\<close>.
  \<^verbatim>\<open>trim\<close> removes white space at both ends; a string is truthy when it is not empty.
\<close>

definition js_whitespace :: "char \<Rightarrow> bool" where
  "js_whitespace c \<longleftrightarrow>
    c \<in> set [CHR 0x09, CHR 0x0A, CHR 0x0B, CHR 0x0C, CHR 0x0D, CHR 0x20, CHR 0xA0]"

definition trim :: "string \<Rightarrow> string" where
  "trim s = rev (dropWhile js_whitespace (rev (dropWhile js_whitespace s)))"

definition to_link :: "node \<Rightarrow> article" where
  "to_link a = \<lparr>title = trim (innerText a), url = href a\<rparr>"

definition links_of :: "node list \<Rightarrow> article list" where
  "links_of nodes = filter (\<lambda>x. title x \<noteq> [] \<and> url x \<noteq> []) (map to_link nodes)"

definition eval_on_selector_all :: "browser \<Rightarrow> string \<Rightarrow> exn + article list" where
  "eval_on_selector_all page sel =
    (case matches page sel of Inl e \<Rightarrow> Inl e | Inr nodes \<Rightarrow> Inr (links_of nodes))"

text \<open>
  The selector loop of \<^verbatim>\<open>fetch_links\<close>:
  \<^verbatim>\<open>
  articles = []
  for sel in selectors:
      try:
          links = page.eval_on_selector_all(sel, ...)
          if links:
              articles = links
              break
      except Exception:
          continue
  \<close>
  It returns \<open>articles\<close> together with the selectors it has queried, in order.
\<close>

fun try_selectors :: "browser \<Rightarrow> string list \<Rightarrow> string list \<Rightarrow> article list \<times> string list" where
  "try_selectors page [] queried = ([], queried)"
| "try_selectors page (sel # sels) queried =
    (case eval_on_selector_all page sel of
       Inl e \<Rightarrow> try_selectors page sels (queried @ [sel])
     | Inr links \<Rightarrow>
         if links \<noteq> [] then (links, queried @ [sel])
         else try_selectors page sels (queried @ [sel]))"

text \<open>
  The body of the \<^verbatim>\<open>try\<close> block of \<^verbatim>\<open>fetch_links\<close>. \<open>netloc\<close> is
  \<^verbatim>\<open>urlparse(url).netloc\<close> of the standard library, taken as a parameter.
\<close>

definition selectors_for :: "(string \<Rightarrow> string) \<Rightarrow> string \<Rightarrow> string list" where
  "selectors_for netloc u = site_selectors (netloc u) @ GENERIC_SELECTORS"

definition scrape :: "(string \<Rightarrow> string) \<Rightarrow> browser \<Rightarrow> string \<Rightarrow> exn + article list" where
  "scrape netloc b u =
    and_then (launch b) (\<lambda>_.
    and_then (goto b) (\<lambda>_.
      let articles = fst (try_selectors b (selectors_for netloc u) []) in
      and_then (close b) (\<lambda>_.
      Inr (take 10 articles))))"

text \<open>
  \<^verbatim>\<open>fetch_links(url)\<close>: the returned list, and the messages shown with \<^verbatim>\<open>st.error\<close>.
  \<^verbatim>\<open>
  except Exception as e:
      st.error(f"Error scraping {url}: {e}")
      return []
  \<close>
\<close>

definition fetch_links :: "(string \<Rightarrow> string) \<Rightarrow> browser \<Rightarrow> string \<Rightarrow> article list \<times> string list" where
  "fetch_links netloc b u =
    (case scrape netloc b u of
       Inl e \<Rightarrow> ([], [''Error scraping '' @ u @ '': '' @ e])
     | Inr articles \<Rightarrow> (articles, []))"

section \<open>Article content\<close>

text \<open>
  The readability and HTML-parsing libraries, taken as parameters:
  \<^verbatim>\<open>Document(html).summary()\<close>, \<^verbatim>\<open>Document(html).title()\<close> and
  \<^verbatim>\<open>str(BeautifulSoup(cleaned_html, "html.parser"))\<close>. Each may raise.
\<close>

record reader_lib =
  summary :: "string \<Rightarrow> exn + string"
  doc_title :: "string \<Rightarrow> exn + string"
  soup :: "string \<Rightarrow> exn + string"

text \<open>The value both \<^verbatim>\<open>except Exception as e\<close> handlers return.\<close>

definition error_page :: "exn \<Rightarrow> string" where
  "error_page e = ''<p>Error loading article: '' @ e @ ''</p>''"

definition fetch_article_reader_mode :: "reader_lib \<Rightarrow> browser \<Rightarrow> string" where
  "fetch_article_reader_mode lib b =
    (case
       and_then (launch b) (\<lambda>_.
       and_then (goto b) (\<lambda>_.
       and_then (content b) (\<lambda>html.
       and_then (close b) (\<lambda>_.
       and_then (summary lib html) (\<lambda>cleaned_html.
       and_then (doc_title lib html) (\<lambda>title.
       and_then (soup lib cleaned_html) (\<lambda>soup.
       Inr (''<h1>'' @ title @ ''</h1>'' @ soup))))))))
     of Inl e \<Rightarrow> error_page e | Inr html \<Rightarrow> html)"

definition fetch_article_html :: "browser \<Rightarrow> string" where
  "fetch_article_html b =
    (case
       and_then (launch b) (\<lambda>_.
       and_then (goto b) (\<lambda>_.
       and_then (evaluate b) (\<lambda>_.
       and_then (content b) (\<lambda>html.
       and_then (close b) (\<lambda>_.
       Inr html)))))
     of Inl e \<Rightarrow> error_page e | Inr html \<Rightarrow> html)"

text \<open>
  The viewer's choice between the two, as both call sites make it:
  \<^verbatim>\<open>if mode == "HTML": html = fetch_article_html(url) else: html = fetch_article_reader_mode(url)\<close>.
\<close>

definition read_article :: "string \<Rightarrow> reader_lib \<Rightarrow> browser \<Rightarrow> string" where
  "read_article mode lib b =
    (if mode = ''HTML'' then fetch_article_html b else fetch_article_reader_mode lib b)"

section \<open>Check for updates\<close>

text \<open>
  What the "Check now" handler works on: \<open>state\<close> is the dict loaded from
  \<^verbatim>\<open>monitor_state.json\<close> (url of a monitored page to the list of article urls last
  seen there), \<open>new_articles_global\<close> the list handed to the session state at the end,
  \<open>st_errors\<close> the messages \<^verbatim>\<open>fetch_links\<close> has shown.
\<close>

record app =
  state :: "string \<rightharpoonup> string list"
  new_articles_global :: "article list"
  st_errors :: "string list"

text \<open>
  A Python set of strings is kept as a list without duplicates. Python fixes no order for
  the elements of a set, so \<^verbatim>\<open>list(current_urls)\<close> is one of the orderings of the
  set; the properties below read a stored list through \<open>set\<close> only.
\<close>

definition py_set :: "string list \<Rightarrow> string list" where
  "py_set xs = remdups xs"

definition set_minus :: "string list \<Rightarrow> string list \<Rightarrow> string list" where
  "set_minus xs ys = filter (\<lambda>x. x \<notin> set ys) xs"

text \<open>
  The body of the loop over the monitored urls, after \<^verbatim>\<open>articles = fetch_links(url)\<close>:
  \<^verbatim>\<open>
  if not articles:
      continue
  current_urls = {a["url"] for a in articles}
  if url not in state:
      new_articles = articles
      new_articles_global.extend(new_articles)
      state[url] = list(current_urls)
      continue
  old_urls = set(state[url])
  new_urls = current_urls - old_urls
  new_articles = [a for a in articles if a["url"] in new_urls]
  new_articles_global.extend(new_articles)
  state[url] = list(current_urls)
  \<close>
\<close>

definition check_articles :: "string \<Rightarrow> article list \<Rightarrow> app \<Rightarrow> app" where
  "check_articles u articles s =
    (if articles = [] then s
     else
       let current_urls = py_set (map url articles) in
       case state s u of
         None \<Rightarrow>
           s\<lparr>new_articles_global := new_articles_global s @ articles,
             state := (state s)(u \<mapsto> current_urls)\<rparr>
       | Some saved \<Rightarrow>
           let old_urls = py_set saved;
               new_urls = set_minus current_urls old_urls;
               new_articles = filter (\<lambda>a. url a \<in> set new_urls) articles
           in s\<lparr>new_articles_global := new_articles_global s @ new_articles,
                state := (state s)(u \<mapsto> current_urls)\<rparr>)"

text \<open>One iteration: the fetch, with the browser session it runs in, then the body.\<close>

definition check_url :: "(string \<Rightarrow> string) \<Rightarrow> string \<times> browser \<Rightarrow> app \<Rightarrow> app" where
  "check_url netloc ub s =
    (let (articles, shown) = fetch_links netloc (snd ub) (fst ub)
     in check_articles (fst ub) articles (s\<lparr>st_errors := st_errors s @ shown\<rparr>))"

text \<open>
  The handler: \<^verbatim>\<open>for url in urls: ...\<close> from an empty \<open>new_articles_global\<close>. Each
  monitored url comes with the browser session its fetch runs in. The \<open>state\<close> of the
  result is what \<^verbatim>\<open>save_json(STATE_FILE, state)\<close> writes.
\<close>

definition check_now :: "(string \<Rightarrow> string) \<Rightarrow> (string \<times> browser) list \<Rightarrow> (string \<rightharpoonup> string list) \<Rightarrow> app" where
  "check_now netloc urls saved =
    fold (check_url netloc) urls \<lparr>state = saved, new_articles_global = [], st_errors = []\<rparr>"

section \<open>Notions the properties are stated with\<close>

text \<open>What a rule contributes: its surviving links, none when its query raises.\<close>

definition yield :: "browser \<Rightarrow> string \<Rightarrow> article list" where
  "yield page sel = (case eval_on_selector_all page sel of Inl e \<Rightarrow> [] | Inr links \<Rightarrow> links)"

text \<open>The same session with every raising query answering with no match instead.\<close>

definition quiet :: "browser \<Rightarrow> browser" where
  "quiet b = b\<lparr>matches := (\<lambda>sel. case matches b sel of Inl e \<Rightarrow> Inr [] | Inr nodes \<Rightarrow> Inr nodes)\<rparr>"

text \<open>The first raise in a sequence of calls, if any.\<close>

fun first_raise :: "(exn + unit) list \<Rightarrow> exn option" where
  "first_raise [] = None"
| "first_raise (Inl e # rs) = Some e"
| "first_raise (Inr _ # rs) = first_raise rs"

definition outcome :: "exn + 'a \<Rightarrow> exn + unit" where
  "outcome r = (case r of Inl e \<Rightarrow> Inl e | Inr _ \<Rightarrow> Inr ())"

text \<open>The monitored urls whose fetch returned a list that is not empty, in one run.\<close>

definition updated_sources :: "(string \<Rightarrow> string) \<Rightarrow> (string \<times> browser) list \<Rightarrow> string list" where
  "updated_sources netloc urls =
    map fst (filter (\<lambda>ub. fst (fetch_links netloc (snd ub) (fst ub)) \<noteq> []) urls)"

text \<open>
  The fallible calls of the two content functions, in the order the code makes them. A call
  that needs the value of an earlier one is listed when that value exists.
\<close>

definition html_steps :: "browser \<Rightarrow> (exn + unit) list" where
  "html_steps b = [launch b, goto b, evaluate b, outcome (content b), close b]"

definition reader_steps :: "reader_lib \<Rightarrow> browser \<Rightarrow> (exn + unit) list" where
  "reader_steps lib b =
    [launch b, goto b, outcome (content b), close b] @
    (case content b of
       Inl e \<Rightarrow> []
     | Inr html \<Rightarrow>
         [outcome (summary lib html), outcome (doc_title lib html)] @
         (case summary lib html of
            Inl e \<Rightarrow> []
          | Inr cleaned_html \<Rightarrow> [outcome (soup lib cleaned_html)]))"

definition steps_of :: "string \<Rightarrow> reader_lib \<Rightarrow> browser \<Rightarrow> (exn + unit) list" where
  "steps_of mode lib b = (if mode = ''HTML'' then html_steps b else reader_steps lib b)"

section \<open>Example sessions\<close>

text \<open>A host reader for urls of the form \<^verbatim>\<open>scheme://host/path\<close>, used at the examples.\<close>

fun after_slashes :: "string \<Rightarrow> string" where
  "after_slashes (a # b # cs) =
    (if a = CHR ''/'' \<and> b = CHR ''/'' then cs else after_slashes (b # cs))"
| "after_slashes _ = []"

definition example_netloc :: "string \<Rightarrow> string" where
  "example_netloc u = takeWhile (\<lambda>c. c \<notin> set ''/?#'') (after_slashes u)"

definition anchor :: "string \<Rightarrow> string \<Rightarrow> node" where
  "anchor t h = \<lparr>innerText = t, href = h\<rparr>"

text \<open>A page that loads and closes, with no anchor at all.\<close>

definition blank_page :: browser where
  "blank_page =
    \<lparr>launch = Inr (), goto = Inr (), matches = (\<lambda>sel. Inr []), evaluate = Inr (),
     content = Inr ''<html></html>'', close = Inr ()\<rparr>"

text \<open>A readability library that gives up on an empty document.\<close>

definition example_lib :: reader_lib where
  "example_lib =
    \<lparr>summary = (\<lambda>html. if html = [] then Inl ''Document is empty'' else Inr html),
     doc_title = (\<lambda>html. Inr ''Untitled''),
     soup = (\<lambda>cleaned_html. Inr cleaned_html)\<rparr>"

text \<open>A page that loads with an empty document.\<close>

definition empty_document_page :: browser where
  "empty_document_page = blank_page\<lparr>content := Inr []\<rparr>"

text \<open>A session whose navigation times out.\<close>

definition unreachable_page :: browser where
  "unreachable_page = blank_page\<lparr>goto := Inl ''Timeout 60000ms exceeded.''\<rparr>"

text \<open>
  A HuffPost listing: the first site rule matches nothing, the second matches three
  anchors (one of them with a blank text), and a generic rule would match as well.
\<close>

definition huffpost_page :: browser where
  "huffpost_page = blank_page\<lparr>matches := (\<lambda>sel.
     if sel = ''a[href*='/weird-news/']'' then
       Inr [anchor '' Cat elected mayor '' ''https://www.huffpost.com/weird-news/cat'',
            anchor ''   '' ''https://www.huffpost.com/weird-news/'',
            anchor ''Dog drives bus'' ''https://www.huffpost.com/weird-news/dog'']
     else if sel = ''article a'' then
       Inr [anchor ''Politics'' ''https://www.huffpost.com/politics'']
     else Inr [])\<rparr>"

text \<open>The same listing in a session where the query of the first site rule raises.\<close>

definition flaky_page :: browser where
  "flaky_page = huffpost_page\<lparr>matches := (\<lambda>sel.
     if sel = ''a[href*='/entry/']'' then Inl ''Execution context was destroyed''
     else matches huffpost_page sel)\<rparr>"

text \<open>A page of an unlisted site with twelve headlines under \<^verbatim>\<open>h3 a\<close>.\<close>

definition long_page :: browser where
  "long_page = blank_page\<lparr>matches := (\<lambda>sel.
     if sel = ''h3 a'' then
       Inr (map (\<lambda>t. anchor t (''https://example.com/'' @ t))
         [''a'', ''b'', ''c'', ''d'', ''e'', ''f'', ''g'', ''h'', ''i'', ''j'', ''k'', ''l''])
     else Inr [])\<rparr>"

text \<open>
  Two successive listings of one source: \<open>u2\<close> leaves the page and \<open>u3\<close> appears.
\<close>

definition first_fetch :: "article list" where
  "first_fetch = [\<lparr>title = ''A'', url = ''u1''\<rparr>, \<lparr>title = ''B'', url = ''u2''\<rparr>]"

definition second_fetch :: "article list" where
  "second_fetch = [\<lparr>title = ''A'', url = ''u1''\<rparr>, \<lparr>title = ''C'', url = ''u3''\<rparr>]"

definition fresh_app :: app where
  "fresh_app = \<lparr>state = Map.empty, new_articles_global = [], st_errors = []\<rparr>"

definition seen_app :: app where
  "seen_app = fresh_app\<lparr>state := [''example.com'' \<mapsto> [''u1'', ''u2'']]\<rparr>"

text \<open>A monitored list of two pages, the second of which yields nothing.\<close>

definition two_sources :: "(string \<times> browser) list" where
  "two_sources =
    [(''https://www.huffpost.com/weird-news/'', huffpost_page),
     (''https://example.com/news'', blank_page)]"

definition saved_state :: "string \<rightharpoonup> string list" where
  "saved_state =
    [''https://example.com/news'' \<mapsto> [''https://example.com/old''],
     ''https://other.org/'' \<mapsto> []]"

definition saved_app :: app where
  "saved_app = fresh_app\<lparr>state := saved_state\<rparr>"

section \<open>Properties of link extraction\<close>

lemma try_selectors_fst:
  "fst (try_selectors page sels q) =
    (case find (\<lambda>sel. yield page sel \<noteq> []) sels of None \<Rightarrow> [] | Some w \<Rightarrow> yield page w)"
  by (induction sels arbitrary: q) (auto simp: yield_def split: sum.splits)

lemma try_selectors_snd:
  "snd (try_selectors page sels q) =
    q @ takeWhile (\<lambda>sel. yield page sel = []) sels @
      (case find (\<lambda>sel. yield page sel \<noteq> []) sels of None \<Rightarrow> [] | Some w \<Rightarrow> [w])"
  by (induction sels arbitrary: q) (auto simp: yield_def split: sum.splits)

lemma scrape_loaded:
  "launch b = Inr () \<Longrightarrow> goto b = Inr () \<Longrightarrow> close b = Inr () \<Longrightarrow>
   scrape netloc b u = Inr (take 10 (fst (try_selectors b (selectors_for netloc u) [])))"
  by (simp add: scrape_def and_then_def)

lemma scrape_outcome:
  "outcome (scrape netloc b u) = and_then (launch b) (\<lambda>_. and_then (goto b) (\<lambda>_. close b))"
  by (simp add: scrape_def and_then_def outcome_def Let_def split: sum.splits)

lemma try_selectors_quiet: "try_selectors (quiet b) sels q = try_selectors b sels q"
  by (induction sels arbitrary: q)
    (auto simp: quiet_def eval_on_selector_all_def links_of_def split: sum.splits)

lemma first_raise_session:
  "first_raise [launch b, goto b, close b] = Some e \<Longrightarrow> scrape netloc b u = Inl e"
  by (cases "launch b"; cases "goto b"; cases "close b")
    (simp_all add: scrape_def and_then_def)

lemma find_None_yield:
  "\<forall>sel\<in>set sels. yield b sel = [] \<Longrightarrow> find (\<lambda>sel. yield b sel \<noteq> []) sels = None"
  by (simp add: find_None_iff)

lemma length_scrape: "scrape netloc b u = Inr articles \<Longrightarrow> length articles \<le> 10"
  by (auto simp: scrape_def and_then_def Let_def split: sum.splits)

text \<open>
  C4. Whatever the url and the browser session, \<^verbatim>\<open>fetch_links\<close> returns at most 10
  articles; when the session launches, loads and closes, they are the first 10, in DOM
  order, of the list the selector loop ended with, however long that list is.
\<close>

theorem fetch_links_at_most_10:
  "length (fst (fetch_links netloc b u)) \<le> 10 \<and>
   (launch b = Inr () \<and> goto b = Inr () \<and> close b = Inr () \<longrightarrow>
      fst (fetch_links netloc b u) =
        take 10 (fst (try_selectors b (selectors_for netloc u) [])))"
proof
  show "length (fst (fetch_links netloc b u)) \<le> 10"
    by (cases "scrape netloc b u") (simp_all add: fetch_links_def length_scrape)
next
  show "launch b = Inr () \<and> goto b = Inr () \<and> close b = Inr () \<longrightarrow>
      fst (fetch_links netloc b u) =
        take 10 (fst (try_selectors b (selectors_for netloc u) []))"
    by (simp add: fetch_links_def scrape_loaded)
qed

theorem fetch_links_at_most_10_witness:
  "launch long_page = Inr () \<and> goto long_page = Inr () \<and> close long_page = Inr () \<and>
   length (fst (try_selectors long_page (selectors_for example_netloc ''https://example.com/news'') [])) = 12 \<and>
   length (fst (fetch_links example_netloc long_page ''https://example.com/news'')) \<le> 10 \<and>
   fst (fetch_links example_netloc long_page ''https://example.com/news'') =
     map (\<lambda>t. \<lparr>title = t, url = ''https://example.com/'' @ t\<rparr>)
       [''a'', ''b'', ''c'', ''d'', ''e'', ''f'', ''g'', ''h'', ''i'', ''j'']"
proof -
  have ok: "launch long_page = Inr () \<and> goto long_page = Inr () \<and> close long_page = Inr ()"
    by (simp add: long_page_def blank_page_def)
  have loop: "fst (try_selectors long_page (selectors_for example_netloc ''https://example.com/news'') []) =
     map (\<lambda>t. \<lparr>title = t, url = ''https://example.com/'' @ t\<rparr>)
       [''a'', ''b'', ''c'', ''d'', ''e'', ''f'', ''g'', ''h'', ''i'', ''j'', ''k'', ''l'']"
    by code_simp
  from fetch_links_at_most_10 [of example_netloc long_page "''https://example.com/news''"] ok
  have "length (fst (fetch_links example_netloc long_page ''https://example.com/news'')) \<le> 10"
    and "fst (fetch_links example_netloc long_page ''https://example.com/news'') =
      take 10 (fst (try_selectors long_page (selectors_for example_netloc ''https://example.com/news'') []))"
    by blast+
  with ok loop show ?thesis by simp
qed

text \<open>
  C5. The rules are tried in one order: those configured for the host of the url, in
  their configured order, then the generic ones in theirs. The loop queries the rules
  up to and including the first one with a surviving link and no rule after it; what it
  returns is that rule's list alone, and \<^verbatim>\<open>fetch_links\<close> returns the first 10 of it
  when the session launches, loads and closes.
\<close>

theorem rules_in_order_first_wins:
  "selectors_for netloc u = site_selectors (netloc u) @ GENERIC_SELECTORS \<and>
   snd (try_selectors b (selectors_for netloc u) []) =
     takeWhile (\<lambda>sel. yield b sel = []) (site_selectors (netloc u) @ GENERIC_SELECTORS) @
     (case find (\<lambda>sel. yield b sel \<noteq> []) (site_selectors (netloc u) @ GENERIC_SELECTORS) of
        None \<Rightarrow> [] | Some w \<Rightarrow> [w]) \<and>
   (launch b = Inr () \<and> goto b = Inr () \<and> close b = Inr () \<longrightarrow>
      fst (fetch_links netloc b u) =
        take 10
          (case find (\<lambda>sel. yield b sel \<noteq> []) (site_selectors (netloc u) @ GENERIC_SELECTORS) of
             None \<Rightarrow> [] | Some w \<Rightarrow> yield b w))"
  by (simp add: try_selectors_snd fetch_links_def scrape_loaded try_selectors_fst)
    (simp add: selectors_for_def)

theorem rules_in_order_first_wins_witness:
  "launch huffpost_page = Inr () \<and> goto huffpost_page = Inr () \<and> close huffpost_page = Inr () \<and>
   selectors_for example_netloc ''https://www.huffpost.com/weird-news/'' =
     [''a[href*='/entry/']'', ''a[href*='/weird-news/']''] @ GENERIC_SELECTORS \<and>
   yield huffpost_page ''article a'' =
     [\<lparr>title = ''Politics'', url = ''https://www.huffpost.com/politics''\<rparr>] \<and>
   snd (try_selectors huffpost_page
         (selectors_for example_netloc ''https://www.huffpost.com/weird-news/'') []) =
     [''a[href*='/entry/']'', ''a[href*='/weird-news/']''] \<and>
   fst (fetch_links example_netloc huffpost_page ''https://www.huffpost.com/weird-news/'') =
     [\<lparr>title = ''Cat elected mayor'', url = ''https://www.huffpost.com/weird-news/cat''\<rparr>,
      \<lparr>title = ''Dog drives bus'', url = ''https://www.huffpost.com/weird-news/dog''\<rparr>]"
proof -
  let ?u = "''https://www.huffpost.com/weird-news/''"
  let ?sels = "site_selectors (example_netloc ?u) @ GENERIC_SELECTORS"
  have ok: "launch huffpost_page = Inr () \<and> goto huffpost_page = Inr () \<and>
      close huffpost_page = Inr ()"
    by (simp add: huffpost_page_def blank_page_def)
  have site: "site_selectors (example_netloc ?u) = [''a[href*='/entry/']'', ''a[href*='/weird-news/']'']"
    by (simp add: example_netloc_def site_selectors_def SITE_SELECTORS_def)
  have other: "yield huffpost_page ''article a'' =
     [\<lparr>title = ''Politics'', url = ''https://www.huffpost.com/politics''\<rparr>]"
    by code_simp
  have queried: "takeWhile (\<lambda>sel. yield huffpost_page sel = []) ?sels @
      (case find (\<lambda>sel. yield huffpost_page sel \<noteq> []) ?sels of None \<Rightarrow> [] | Some w \<Rightarrow> [w]) =
      [''a[href*='/entry/']'', ''a[href*='/weird-news/']'']"
    by code_simp
  have won: "take 10 (case find (\<lambda>sel. yield huffpost_page sel \<noteq> []) ?sels of
        None \<Rightarrow> [] | Some w \<Rightarrow> yield huffpost_page w) =
     [\<lparr>title = ''Cat elected mayor'', url = ''https://www.huffpost.com/weird-news/cat''\<rparr>,
      \<lparr>title = ''Dog drives bus'', url = ''https://www.huffpost.com/weird-news/dog''\<rparr>]"
    by code_simp
  note t = rules_in_order_first_wins [of example_netloc ?u huffpost_page]
  from t have a: "selectors_for example_netloc ?u = ?sels" by blast
  from t have b0: "snd (try_selectors huffpost_page (selectors_for example_netloc ?u) []) =
      takeWhile (\<lambda>sel. yield huffpost_page sel = []) ?sels @
      (case find (\<lambda>sel. yield huffpost_page sel \<noteq> []) ?sels of None \<Rightarrow> [] | Some w \<Rightarrow> [w])"
    by blast
  from t ok have c0: "fst (fetch_links example_netloc huffpost_page ?u) =
      take 10 (case find (\<lambda>sel. yield huffpost_page sel \<noteq> []) ?sels of
        None \<Rightarrow> [] | Some w \<Rightarrow> yield huffpost_page w)"
    by blast
  note b = trans [OF b0 queried] and c = trans [OF c0 won]
  from ok a [unfolded site] other b c show ?thesis by blast
qed

text \<open>
  C9. A rule whose query raises counts as a rule without a match, for that rule only:
  the loop goes on to the next rule exactly as if the query had matched nothing, the
  result of \<^verbatim>\<open>fetch_links\<close> and the messages it shows are the same, and whether the
  extraction fails is decided by launching, loading and closing the session alone.
\<close>

theorem query_error_is_no_match:
  "try_selectors (quiet b) sels q = try_selectors b sels q \<and>
   fetch_links netloc (quiet b) u = fetch_links netloc b u \<and>
   outcome (scrape netloc b u) = and_then (launch b) (\<lambda>_. and_then (goto b) (\<lambda>_. close b))"
proof -
  have "scrape netloc (quiet b) u = scrape netloc b u"
    by (simp add: scrape_def try_selectors_quiet) (simp add: quiet_def)
  then show ?thesis
    by (simp add: fetch_links_def try_selectors_quiet scrape_outcome)
qed

theorem query_error_is_no_match_witness:
  "matches flaky_page ''a[href*='/entry/']'' = Inl ''Execution context was destroyed'' \<and>
   try_selectors flaky_page (selectors_for example_netloc ''https://www.huffpost.com/weird-news/'') [] =
     ([\<lparr>title = ''Cat elected mayor'', url = ''https://www.huffpost.com/weird-news/cat''\<rparr>,
       \<lparr>title = ''Dog drives bus'', url = ''https://www.huffpost.com/weird-news/dog''\<rparr>],
      [''a[href*='/entry/']'', ''a[href*='/weird-news/']'']) \<and>
   fetch_links example_netloc flaky_page ''https://www.huffpost.com/weird-news/'' =
     ([\<lparr>title = ''Cat elected mayor'', url = ''https://www.huffpost.com/weird-news/cat''\<rparr>,
       \<lparr>title = ''Dog drives bus'', url = ''https://www.huffpost.com/weird-news/dog''\<rparr>], [])"
proof -
  let ?u = "''https://www.huffpost.com/weird-news/''"
  have raises: "matches flaky_page ''a[href*='/entry/']'' = Inl ''Execution context was destroyed''"
    by (simp add: flaky_page_def)
  have loop: "try_selectors (quiet flaky_page) (selectors_for example_netloc ?u) [] =
     ([\<lparr>title = ''Cat elected mayor'', url = ''https://www.huffpost.com/weird-news/cat''\<rparr>,
       \<lparr>title = ''Dog drives bus'', url = ''https://www.huffpost.com/weird-news/dog''\<rparr>],
      [''a[href*='/entry/']'', ''a[href*='/weird-news/']''])"
    by code_simp
  have fetched: "fetch_links example_netloc (quiet flaky_page) ?u =
     ([\<lparr>title = ''Cat elected mayor'', url = ''https://www.huffpost.com/weird-news/cat''\<rparr>,
       \<lparr>title = ''Dog drives bus'', url = ''https://www.huffpost.com/weird-news/dog''\<rparr>], [])"
    by code_simp
  note t = query_error_is_no_match
    [of flaky_page "selectors_for example_netloc ?u" "[]" example_netloc ?u]
  from t have a: "try_selectors (quiet flaky_page) (selectors_for example_netloc ?u) [] =
      try_selectors flaky_page (selectors_for example_netloc ?u) []"
    by blast
  from t have b: "fetch_links example_netloc (quiet flaky_page) ?u =
      fetch_links example_netloc flaky_page ?u"
    by blast
  note a' = trans [OF a [symmetric] loop] and b' = trans [OF b [symmetric] fetched]
  from raises a' b' show ?thesis by blast
qed

text \<open>
  C6, as the code has it. When launching, loading or closing the session fails,
  \<^verbatim>\<open>fetch_links\<close> shows the message "Error scraping url: cause" with
  \<^verbatim>\<open>st.error\<close> and returns the empty list; when the session succeeds and no rule has
  a surviving link it returns the empty list and shows nothing. The caller receives the
  same value in both cases.
\<close>

theorem fetch_failure_shown_not_returned:
  "(first_raise [launch b, goto b, close b] = Some e \<longrightarrow>
      fetch_links netloc b u = ([], [''Error scraping '' @ u @ '': '' @ e])) \<and>
   (launch b = Inr () \<and> goto b = Inr () \<and> close b = Inr () \<and>
    (\<forall>sel\<in>set (selectors_for netloc u). yield b sel = []) \<longrightarrow>
      fetch_links netloc b u = ([], []))"
  by (simp add: fetch_links_def first_raise_session scrape_loaded try_selectors_fst
      find_None_yield)

theorem fetch_failure_shown_not_returned_witness:
  "first_raise [launch unreachable_page, goto unreachable_page, close unreachable_page] =
     Some ''Timeout 60000ms exceeded.'' \<and>
   fetch_links example_netloc unreachable_page ''https://example.com/news'' =
     ([], [''Error scraping https://example.com/news: Timeout 60000ms exceeded.'']) \<and>
   launch blank_page = Inr () \<and> goto blank_page = Inr () \<and> close blank_page = Inr () \<and>
   list_all (\<lambda>sel. yield blank_page sel = [])
     (selectors_for example_netloc ''https://example.com/news'') \<and>
   fetch_links example_netloc blank_page ''https://example.com/news'' = ([], [])"
proof -
  let ?u = "''https://example.com/news''"
  have down: "first_raise [launch unreachable_page, goto unreachable_page, close unreachable_page] =
     Some ''Timeout 60000ms exceeded.''"
    by (simp add: unreachable_page_def blank_page_def)
  have ok: "launch blank_page = Inr () \<and> goto blank_page = Inr () \<and> close blank_page = Inr ()"
    by (simp add: blank_page_def)
  have none: "\<forall>sel\<in>set (selectors_for example_netloc ?u). yield blank_page sel = []"
    by (simp add: yield_def eval_on_selector_all_def blank_page_def links_of_def)
  from fetch_failure_shown_not_returned
    [of unreachable_page "''Timeout 60000ms exceeded.''" example_netloc ?u] down
  have a: "fetch_links example_netloc unreachable_page ?u =
     ([], [''Error scraping https://example.com/news: Timeout 60000ms exceeded.''])"
    by simp
  from fetch_failure_shown_not_returned [of blank_page _ example_netloc ?u] ok none
  have b: "fetch_links example_netloc blank_page ?u = ([], [])"
    by blast
  from down a ok none b show ?thesis by (simp add: list_all_iff)
qed

text \<open>
  C6, as claimed, fails: a navigation that times out and a page without any link give
  the caller the same empty list.
\<close>

theorem failed_fetch_returns_empty_list_counterexample:
  "goto unreachable_page = Inl ''Timeout 60000ms exceeded.'' \<and>
   goto blank_page = Inr () \<and>
   scrape example_netloc unreachable_page ''https://example.com/news'' =
     Inl ''Timeout 60000ms exceeded.'' \<and>
   scrape example_netloc blank_page ''https://example.com/news'' = Inr [] \<and>
   fst (fetch_links example_netloc unreachable_page ''https://example.com/news'') = [] \<and>
   fst (fetch_links example_netloc blank_page ''https://example.com/news'') = [] \<and>
   fst (fetch_links example_netloc unreachable_page ''https://example.com/news'') =
   fst (fetch_links example_netloc blank_page ''https://example.com/news'')"
  by code_simp

section \<open>Properties of the content functions\<close>

lemma html_raise:
  "first_raise (html_steps b) = Some e \<Longrightarrow> fetch_article_html b = error_page e"
  by (cases "launch b"; cases "goto b"; cases "evaluate b"; cases "content b"; cases "close b")
    (simp_all add: html_steps_def fetch_article_html_def and_then_def outcome_def)

lemma html_ok:
  "first_raise (html_steps b) = None \<Longrightarrow> content b = Inr (fetch_article_html b)"
  by (cases "launch b"; cases "goto b"; cases "evaluate b"; cases "content b"; cases "close b")
    (simp_all add: html_steps_def fetch_article_html_def and_then_def outcome_def)

lemma reader_raise:
  "first_raise (reader_steps lib b) = Some e \<Longrightarrow> fetch_article_reader_mode lib b = error_page e"
  by (cases "launch b"; cases "goto b"; cases "content b"; cases "close b")
    (auto simp: reader_steps_def fetch_article_reader_mode_def and_then_def outcome_def
      split: sum.splits)

lemma reader_ok:
  "first_raise (reader_steps lib b) = None \<Longrightarrow>
   \<exists>html cleaned_html t s.
     content b = Inr html \<and> summary lib html = Inr cleaned_html \<and>
     doc_title lib html = Inr t \<and> soup lib cleaned_html = Inr s \<and>
     fetch_article_reader_mode lib b = ''<h1>'' @ t @ ''</h1>'' @ s"
  by (cases "launch b"; cases "goto b"; cases "content b"; cases "close b")
    (auto simp: reader_steps_def fetch_article_reader_mode_def and_then_def outcome_def
      split: sum.splits)

text \<open>
  C8. Whatever the mode, the library and the session, the content functions return a
  string. When a call raises, the string is the paragraph "Error loading article:"
  followed by the message of the first raise; when none does, it is the page content
  (HTML mode) or the title as a heading followed by the cleaned body (reader mode).
\<close>

theorem content_never_raises:
  "(first_raise (steps_of mode lib b) = Some e \<longrightarrow>
      read_article mode lib b = error_page e \<and>
      error_page e = ''<p>Error loading article: '' @ e @ ''</p>'') \<and>
   (first_raise (html_steps b) = Some e \<longrightarrow> fetch_article_html b = error_page e) \<and>
   (first_raise (reader_steps lib b) = Some e \<longrightarrow>
      fetch_article_reader_mode lib b = error_page e) \<and>
   (first_raise (html_steps b) = None \<longrightarrow> content b = Inr (fetch_article_html b)) \<and>
   (first_raise (reader_steps lib b) = None \<longrightarrow>
      (\<exists>html cleaned_html t s.
         content b = Inr html \<and> summary lib html = Inr cleaned_html \<and>
         doc_title lib html = Inr t \<and> soup lib cleaned_html = Inr s \<and>
         fetch_article_reader_mode lib b = ''<h1>'' @ t @ ''</h1>'' @ s))"
proof (intro conjI impI)
  assume "first_raise (steps_of mode lib b) = Some e"
  then show "read_article mode lib b = error_page e"
    by (cases "mode = ''HTML''") (simp_all add: steps_of_def read_article_def html_raise reader_raise)
next
  show "error_page e = ''<p>Error loading article: '' @ e @ ''</p>''"
    by (simp add: error_page_def)
next
  assume "first_raise (html_steps b) = Some e"
  then show "fetch_article_html b = error_page e" by (rule html_raise)
next
  assume "first_raise (reader_steps lib b) = Some e"
  then show "fetch_article_reader_mode lib b = error_page e" by (rule reader_raise)
next
  assume "first_raise (html_steps b) = None"
  then show "content b = Inr (fetch_article_html b)" by (rule html_ok)
next
  assume "first_raise (reader_steps lib b) = None"
  then show "\<exists>html cleaned_html t s.
         content b = Inr html \<and> summary lib html = Inr cleaned_html \<and>
         doc_title lib html = Inr t \<and> soup lib cleaned_html = Inr s \<and>
         fetch_article_reader_mode lib b = ''<h1>'' @ t @ ''</h1>'' @ s"
    by (rule reader_ok)
qed

theorem content_never_raises_witness:
  "first_raise (steps_of ''HTML'' example_lib unreachable_page) = Some ''Timeout 60000ms exceeded.'' \<and>
   read_article ''HTML'' example_lib unreachable_page =
     ''<p>Error loading article: Timeout 60000ms exceeded.</p>'' \<and>
   first_raise (reader_steps example_lib empty_document_page) = Some ''Document is empty'' \<and>
   fetch_article_reader_mode example_lib empty_document_page =
     ''<p>Error loading article: Document is empty</p>'' \<and>
   first_raise (html_steps blank_page) = None \<and>
   fetch_article_html blank_page = ''<html></html>'' \<and>
   first_raise (reader_steps example_lib blank_page) = None \<and>
   fetch_article_reader_mode example_lib blank_page = ''<h1>Untitled</h1><html></html>''"
proof -
  have h1: "first_raise (steps_of ''HTML'' example_lib unreachable_page) =
      Some ''Timeout 60000ms exceeded.''"
    by (simp add: steps_of_def html_steps_def unreachable_page_def blank_page_def)
  have h2: "first_raise (reader_steps example_lib empty_document_page) = Some ''Document is empty''"
    by (simp add: reader_steps_def empty_document_page_def blank_page_def example_lib_def
        outcome_def)
  have h3: "first_raise (html_steps blank_page) = None"
    by (simp add: html_steps_def blank_page_def outcome_def)
  have h4: "first_raise (reader_steps example_lib blank_page) = None"
    by (simp add: reader_steps_def blank_page_def example_lib_def outcome_def)
  have c: "content blank_page = Inr ''<html></html>''"
    by (simp add: blank_page_def)
  from content_never_raises
    [of "''HTML''" example_lib unreachable_page "''Timeout 60000ms exceeded.''"] h1
  have a: "read_article ''HTML'' example_lib unreachable_page =
      ''<p>Error loading article: Timeout 60000ms exceeded.</p>''"
    by simp
  from content_never_raises [of _ example_lib empty_document_page "''Document is empty''"] h2
  have b: "fetch_article_reader_mode example_lib empty_document_page =
      ''<p>Error loading article: Document is empty</p>''"
    by (simp add: error_page_def)
  from content_never_raises [of _ example_lib blank_page] h3
  have "content blank_page = Inr (fetch_article_html blank_page)" by blast
  with c have d: "fetch_article_html blank_page = ''<html></html>''" by simp
  from content_never_raises [of _ example_lib blank_page] h4
  obtain html cleaned_html t s where
    "content blank_page = Inr html" "summary example_lib html = Inr cleaned_html"
    "doc_title example_lib html = Inr t" "soup example_lib cleaned_html = Inr s"
    "fetch_article_reader_mode example_lib blank_page = ''<h1>'' @ t @ ''</h1>'' @ s"
    by blast
  then have e: "fetch_article_reader_mode example_lib blank_page = ''<h1>Untitled</h1><html></html>''"
    by (auto simp: blank_page_def example_lib_def split: if_splits)
  from h1 a h2 b h3 d h4 e show ?thesis by blast
qed

section \<open>Properties of the check\<close>

lemma set_py_set: "set (py_set xs) = set xs"
  by (simp add: py_set_def)

lemma set_set_minus: "set (set_minus xs ys) = set xs - set ys"
  by (auto simp: set_minus_def)

lemma filter_none: "filter (\<lambda>a. url a \<in> set (set_minus (py_set (map url articles)) (py_set (py_set (map url articles))))) articles = []"
  by (auto simp: set_set_minus set_py_set filter_empty_conv)

lemma state_check_articles:
  "k \<noteq> u \<or> articles = [] \<Longrightarrow> state (check_articles u articles s) k = state s k"
  by (auto simp: check_articles_def Let_def split: option.splits)

lemma state_check_url:
  "k \<noteq> fst ub \<or> fst (fetch_links netloc (snd ub) (fst ub)) = [] \<Longrightarrow>
   state (check_url netloc ub s) k = state s k"
  by (cases "fetch_links netloc (snd ub) (fst ub)")
    (auto simp: check_url_def state_check_articles)

lemma state_fold_check_url:
  "k \<notin> set (updated_sources netloc urls) \<Longrightarrow>
   state (fold (check_url netloc) urls s) k = state s k"
proof (induction urls arbitrary: s)
  case Nil
  then show ?case by simp
next
  case (Cons ub urls)
  from Cons.prems have here: "k \<noteq> fst ub \<or> fst (fetch_links netloc (snd ub) (fst ub)) = []"
    and rest: "k \<notin> set (updated_sources netloc urls)"
    by (auto simp: updated_sources_def)
  have "state (fold (check_url netloc) urls (check_url netloc ub s)) k =
        state (check_url netloc ub s) k"
    using rest by (rule Cons.IH)
  with here show ?case by (simp add: state_check_url)
qed

text \<open>
  C1. For a source with a stored snapshot \<open>S\<close> and a fresh list that is not empty, the
  check appends to the reported articles exactly the fresh articles whose url is among
  the fresh urls and not in \<open>S\<close>, in extraction order, and stores a snapshot whose
  urls are exactly the fresh urls.
\<close>

theorem new_articles_are_those_not_in_snapshot:
  assumes "state s u = Some S" and "articles \<noteq> []"
  shows "new_articles_global (check_articles u articles s) =
           new_articles_global s @ filter (\<lambda>a. url a \<in> url ` set articles - set S) articles \<and>
         (\<exists>snapshot. state (check_articles u articles s) u = Some snapshot \<and>
            set snapshot = url ` set articles)"
  using assms by (simp add: check_articles_def Let_def set_py_set set_set_minus)

theorem new_articles_are_those_not_in_snapshot_witness:
  "state seen_app ''example.com'' = Some [''u1'', ''u2''] \<and> second_fetch \<noteq> [] \<and>
   new_articles_global (check_articles ''example.com'' second_fetch seen_app) =
     [\<lparr>title = ''C'', url = ''u3''\<rparr>] \<and>
   (\<exists>snapshot. state (check_articles ''example.com'' second_fetch seen_app) ''example.com'' =
      Some snapshot \<and> set snapshot = {''u1'', ''u3''})"
proof -
  have h1: "state seen_app ''example.com'' = Some [''u1'', ''u2'']"
    by (simp add: seen_app_def fresh_app_def)
  have h2: "second_fetch \<noteq> []"
    by (simp add: second_fetch_def)
  have acc: "new_articles_global seen_app = []"
    by (simp add: seen_app_def fresh_app_def)
  have urls: "url ` set second_fetch = {''u1'', ''u3''}"
    by (simp add: second_fetch_def)
  have new: "filter (\<lambda>a. url a \<in> url ` set second_fetch - set [''u1'', ''u2'']) second_fetch =
      [\<lparr>title = ''C'', url = ''u3''\<rparr>]"
    by (simp add: second_fetch_def)
  from new_articles_are_those_not_in_snapshot [OF h1 h2] acc urls new h1 h2
  show ?thesis by simp
qed

text \<open>
  C2. For a source without a stored snapshot and a fresh list that is not empty, the check
  reports every fresh article and stores a snapshot whose urls are exactly the fresh urls.
\<close>

theorem first_check_reports_all:
  assumes "state s u = None" and "articles \<noteq> []"
  shows "new_articles_global (check_articles u articles s) = new_articles_global s @ articles \<and>
         (\<exists>snapshot. state (check_articles u articles s) u = Some snapshot \<and>
            set snapshot = url ` set articles)"
  using assms by (simp add: check_articles_def Let_def set_py_set)

theorem first_check_reports_all_witness:
  "state fresh_app ''example.com'' = None \<and> first_fetch \<noteq> [] \<and>
   new_articles_global (check_articles ''example.com'' first_fetch fresh_app) =
     [\<lparr>title = ''A'', url = ''u1''\<rparr>, \<lparr>title = ''B'', url = ''u2''\<rparr>] \<and>
   (\<exists>snapshot. state (check_articles ''example.com'' first_fetch fresh_app) ''example.com'' =
      Some snapshot \<and> set snapshot = {''u1'', ''u2''})"
proof -
  have h1: "state fresh_app ''example.com'' = None"
    by (simp add: fresh_app_def)
  have h2: "first_fetch \<noteq> []"
    by (simp add: first_fetch_def)
  have acc: "new_articles_global fresh_app = []"
    by (simp add: fresh_app_def)
  have urls: "url ` set first_fetch = {''u1'', ''u2''}"
    by (simp add: first_fetch_def)
  have l: "first_fetch = [\<lparr>title = ''A'', url = ''u1''\<rparr>, \<lparr>title = ''B'', url = ''u2''\<rparr>]"
    by (simp add: first_fetch_def)
  from first_check_reports_all [OF h1 h2] acc urls
  have "new_articles_global (check_articles ''example.com'' first_fetch fresh_app) = first_fetch \<and>
   (\<exists>snapshot. state (check_articles ''example.com'' first_fetch fresh_app) ''example.com'' =
      Some snapshot \<and> set snapshot = {''u1'', ''u2''})"
    by simp
  with h1 h2 l show ?thesis by simp
qed

text \<open>
  C3. When the fetch of a source returns the empty list, the iteration reports no article
  and leaves the whole snapshot store as it was.
\<close>

theorem empty_fetch_is_skipped:
  assumes "fst (fetch_links netloc b u) = []"
  shows "state (check_url netloc (u, b) s) = state s \<and>
         new_articles_global (check_url netloc (u, b) s) = new_articles_global s"
proof -
  obtain shown where "fetch_links netloc b u = ([], shown)"
    using assms by (cases "fetch_links netloc b u") simp
  then show ?thesis
    by (simp add: check_url_def check_articles_def)
qed

theorem empty_fetch_is_skipped_witness:
  "fst (fetch_links example_netloc unreachable_page ''https://example.com/news'') = [] \<and>
   state (check_url example_netloc (''https://example.com/news'', unreachable_page) saved_app) =
     saved_state \<and>
   new_articles_global
     (check_url example_netloc (''https://example.com/news'', unreachable_page) saved_app) = [] \<and>
   saved_state ''https://example.com/news'' = Some [''https://example.com/old'']"
proof -
  have h: "fst (fetch_links example_netloc unreachable_page ''https://example.com/news'') = []"
    by code_simp
  have s: "state saved_app = saved_state" "new_articles_global saved_app = []"
    by (simp_all add: saved_app_def fresh_app_def)
  have v: "saved_state ''https://example.com/news'' = Some [''https://example.com/old'']"
    by (simp add: saved_state_def)
  from empty_fetch_is_skipped [OF h, where s = saved_app] s h v show ?thesis by simp
qed

text \<open>
  C7. A second check of a source with the same fresh list, not empty, reports nothing (from
  whatever list of reported articles it starts), and every stored snapshot has the same
  urls after it as after the first check.
\<close>

theorem second_check_reports_nothing:
  assumes "articles \<noteq> []"
  shows "new_articles_global
           (check_articles u articles ((check_articles u articles s)\<lparr>new_articles_global := acc\<rparr>)) = acc \<and>
         (\<forall>k. map_option set
                (state (check_articles u articles
                   ((check_articles u articles s)\<lparr>new_articles_global := acc\<rparr>)) k) =
              map_option set (state (check_articles u articles s) k))"
  using assms
  by (cases "state s u") (simp_all add: check_articles_def Let_def filter_none)

theorem second_check_reports_nothing_witness:
  "first_fetch \<noteq> [] \<and>
   new_articles_global
     (check_articles ''example.com'' first_fetch
        ((check_articles ''example.com'' first_fetch fresh_app)\<lparr>new_articles_global := []\<rparr>)) = [] \<and>
   map_option set
     (state (check_articles ''example.com'' first_fetch
        ((check_articles ''example.com'' first_fetch fresh_app)\<lparr>new_articles_global := []\<rparr>))
       ''example.com'') =
   map_option set (state (check_articles ''example.com'' first_fetch fresh_app) ''example.com'') \<and>
   map_option set (state (check_articles ''example.com'' first_fetch fresh_app) ''example.com'') =
     Some {''u1'', ''u2''}"
proof -
  have h: "first_fetch \<noteq> []"
    by (simp add: first_fetch_def)
  have v: "map_option set (state (check_articles ''example.com'' first_fetch fresh_app) ''example.com'') =
     Some {''u1'', ''u2''}"
    by (simp add: check_articles_def first_fetch_def fresh_app_def py_set_def)
  from second_check_reports_nothing [OF h, where u = "''example.com''" and s = fresh_app and acc = "[]"] h v
  show ?thesis by blast
qed

text \<open>
  C10. One run over the monitored urls leaves the stored entry of an identity as it was,
  unless the identity is a monitored url whose fetch returned a list that is not empty.
\<close>

theorem check_run_frame:
  assumes "k \<notin> set (updated_sources netloc urls)"
  shows "state (check_now netloc urls saved) k = saved k"
  using assms by (simp add: check_now_def state_fold_check_url)

theorem check_run_frame_witness:
  "updated_sources example_netloc two_sources = [''https://www.huffpost.com/weird-news/''] \<and>
   state (check_now example_netloc two_sources saved_state) ''https://example.com/news'' =
     Some [''https://example.com/old''] \<and>
   state (check_now example_netloc two_sources saved_state) ''https://other.org/'' = Some []"
proof -
  have u: "updated_sources example_netloc two_sources = [''https://www.huffpost.com/weird-news/'']"
    by code_simp
  have k1: "''https://example.com/news'' \<notin> set (updated_sources example_netloc two_sources)"
    by (simp add: u)
  have k2: "''https://other.org/'' \<notin> set (updated_sources example_netloc two_sources)"
    by (simp add: u)
  have v: "saved_state ''https://example.com/news'' = Some [''https://example.com/old'']"
    "saved_state ''https://other.org/'' = Some []"
    by (simp_all add: saved_state_def)
  from check_run_frame [OF k1, where saved = saved_state]
    check_run_frame [OF k2, where saved = saved_state] u v
  show ?thesis by simp
qed

end
